theory Spec2Isabelle
  imports Main "HOL-Library.AList"
begin

section \<open>Python strings and exceptions\<close>

text \<open>
  The rule compiler of \<^verbatim>\<open>validation/generator.py\<close> reads the free-text \<^verbatim>\<open>logic\<close> of a rule
  with \<^verbatim>\<open>in\<close>, \<^verbatim>\<open>str.split\<close> and \<^verbatim>\<open>str.strip\<close>, and writes Python source text. A string is a
  list of characters, a character a code point below 256.
\<close>

fun startswith :: "string \<Rightarrow> string \<Rightarrow> bool" where
  "startswith s [] = True"
| "startswith [] (p # ps) = False"
| "startswith (c # cs) (p # ps) = (c = p \<and> startswith cs ps)"

text \<open>\<^verbatim>\<open>sub in s\<close>: \<open>sub\<close> occurs in \<open>s\<close>.\<close>

fun py_in :: "string \<Rightarrow> string \<Rightarrow> bool" where
  "py_in sub [] = (sub = [])"
| "py_in sub (c # cs) = (startswith (c # cs) sub \<or> py_in sub cs)"

text \<open>
  \<^verbatim>\<open>s.split(sep)\<close> for a non-empty separator: the pieces between the non-overlapping
  occurrences of \<open>sep\<close>, found from the left. The source only splits on the fixed
  separators \<^verbatim>\<open>">="\<close>, \<^verbatim>\<open>"<="\<close>, \<^verbatim>\<open>"AND"\<close>, \<^verbatim>\<open>"IN"\<close> and three backticks; Python raises
  ValueError on an empty separator, which therefore never happens.
\<close>

fun py_split_from :: "string \<Rightarrow> string \<Rightarrow> string \<Rightarrow> string list" where
  "py_split_from sep acc [] = [rev acc]"
| "py_split_from sep acc (c # cs) =
     (if sep \<noteq> [] \<and> startswith (c # cs) sep
      then rev acc # py_split_from sep [] (drop (length sep) (c # cs))
      else py_split_from sep (c # acc) cs)"

definition py_split :: "string \<Rightarrow> string \<Rightarrow> string list" where
  "py_split sep s = py_split_from sep [] s"

text \<open>\<^verbatim>\<open>s.strip()\<close> removes leading and trailing whitespace: the code points below 256 for
  which \<^verbatim>\<open>str.isspace\<close> holds are 9 to 13, 28 to 32, 133 and 160.\<close>

definition is_space :: "char \<Rightarrow> bool" where
  "is_space c =
     (let n = (of_char c :: nat)
      in (9 \<le> n \<and> n \<le> 13) \<or> (28 \<le> n \<and> n \<le> 32) \<or> n = 133 \<or> n = 160)"

definition py_strip :: "string \<Rightarrow> string" where
  "py_strip s = rev (dropWhile is_space (rev (dropWhile is_space s)))"

text \<open>
  The exceptions the modelled code itself raises, as values: the KeyError of a missing
  dictionary key or format field (with the key), the IndexError of a list index out of
  range, the ValueError of a malformed format string (with its message), and the
  KeyError of \<^verbatim>\<open>DataFrame.loc\<close> for row labels that are not in the index.
\<close>

datatype exn = KeyError string | IndexError | ValueError string | LabelsNotInIndex "int list"

text \<open>\<^verbatim>\<open>xs[i]\<close> for \<open>i \<ge> 0\<close>.\<close>

definition item :: "'a list \<Rightarrow> nat \<Rightarrow> exn + 'a" where
  "item xs i = (if i < length xs then Inr (xs ! i) else Inl IndexError)"

section \<open>Rule templates and the rule compiler\<close>

text \<open>
  A rule template is a dictionary; the compiler reads \<^verbatim>\<open>rule["rule_id"]\<close> and, with
  \<^verbatim>\<open>rule.get\<close> and a default, \<^verbatim>\<open>type\<close>, \<^verbatim>\<open>elements\<close>, \<^verbatim>\<open>logic\<close>, \<^verbatim>\<open>description\<close> and
  \<^verbatim>\<open>severity\<close>. \<open>None\<close> is an absent key. A key that is present holds a value of the type
  the data model gives it: a string, and for \<^verbatim>\<open>elements\<close> a list of strings.
\<close>

record rule_template =
  tpl_rule_id :: "string option"
  tpl_type :: "string option"
  tpl_elements :: "string list option"
  tpl_logic :: "string option"
  tpl_description :: "string option"
  tpl_severity :: "string option"

definition get_default :: "'a option \<Rightarrow> 'a \<Rightarrow> 'a" where
  "get_default v d = (case v of None \<Rightarrow> d | Some x \<Rightarrow> x)"

text \<open>Lines 133 to 139 and 166 to 169: the Python expressions cut out of \<open>logic\<close>.\<close>

definition lower_bound_of :: "string \<Rightarrow> exn + string" where
  "lower_bound_of logic =
     (if py_in ''>='' logic then
        (case item (py_split ''>='' logic) 1 of
           Inl e \<Rightarrow> Inl e
         | Inr a \<Rightarrow> (case item (py_split ''AND'' a) 0 of
                      Inl e \<Rightarrow> Inl e
                    | Inr b \<Rightarrow> Inr (py_strip b)))
      else Inr ''float('-inf')'')"

definition upper_bound_of :: "string \<Rightarrow> exn + string" where
  "upper_bound_of logic =
     (if py_in ''<='' logic then
        (case item (py_split ''<='' logic) 1 of
           Inl e \<Rightarrow> Inl e
         | Inr a \<Rightarrow> Inr (py_strip a))
      else Inr ''float('inf')'')"

definition valid_values_of :: "string \<Rightarrow> exn + string" where
  "valid_values_of logic =
     (if py_in ''IN'' logic then
        (case item (py_split ''IN'' logic) 1 of
           Inl e \<Rightarrow> Inl e
         | Inr a \<Rightarrow> Inr (py_strip a))
      else Inr ''[]'')"

text \<open>
  The four f-strings of lines 141 to 161, 171 to 192, 196 to 216 and 224 to 246, character
  for character: the Python source text of one \<^verbatim>\<open>validation_rules.append({...})\<close>
  statement, with the values of \<open>rule_id\<close> (\<open>rid\<close>), \<open>description\<close> (\<open>desc\<close>), \<open>severity\<close>
  (\<open>sev\<close>), \<open>primary_element\<close>, \<open>secondary_element\<close>, \<open>lower_bound\<close>, \<open>upper_bound\<close> and
  \<open>valid_values\<close> spliced in as they are. \<open>pandas_code_template\<close> is the string of lines 37
  to 113.
\<close>

definition nl :: string where
  "nl = [CHR 0x0A]"

definition range_check_text :: "string \<Rightarrow> string \<Rightarrow> string \<Rightarrow> string \<Rightarrow> string \<Rightarrow> string \<Rightarrow> string" where
  "range_check_text rid desc sev primary lower upper =
     nl @
     ''    # Rule '' @ rid @ '': '' @ desc @ nl @
     ''    validation_rules.append({'' @ nl @
     ''        \"rule_id\": \"'' @ rid @ ''\",'' @ nl @
     ''        \"description\": \"'' @ desc @ ''\",'' @ nl @
     ''        \"severity\": \"'' @ sev @ ''\",'' @ nl @
     ''        \"validation_function\": lambda df: {'' @ nl @
     ''            if \"'' @ primary @ ''\" not in df.columns:'' @ nl @
     ''                return {\"passed\": False, \"error_message\": \"Column '' @ primary @ '' not found in DataFrame\"}'' @ nl @
     nl @
     ''            # Find values outside the acceptable range'' @ nl @
     ''            mask = ~((df[\"'' @ primary @ ''\"] >= '' @ lower @ '') & (df[\"'' @ primary @ ''\"] <= '' @ upper @ ''))'' @ nl @
     ''            failed_records = df[mask].index.tolist()'' @ nl @
     nl @
     ''            return {'' @ nl @
     ''                \"passed\": len(failed_records) == 0,'' @ nl @
     ''                \"failed_records\": failed_records[:100]  # Limit to first 100 for readability'' @ nl @
     ''            }'' @ nl @
     ''        }'' @ nl @
     ''    })'' @ nl"

definition categorical_check_text :: "string \<Rightarrow> string \<Rightarrow> string \<Rightarrow> string \<Rightarrow> string \<Rightarrow> string" where
  "categorical_check_text rid desc sev primary valid =
     nl @
     ''    # Rule '' @ rid @ '': '' @ desc @ nl @
     ''    validation_rules.append({'' @ nl @
     ''        \"rule_id\": \"'' @ rid @ ''\",'' @ nl @
     ''        \"description\": \"'' @ desc @ ''\",'' @ nl @
     ''        \"severity\": \"'' @ sev @ ''\",'' @ nl @
     ''        \"validation_function\": lambda df: {'' @ nl @
     ''            if \"'' @ primary @ ''\" not in df.columns:'' @ nl @
     ''                return {\"passed\": False, \"error_message\": \"Column '' @ primary @ '' not found in DataFrame\"}'' @ nl @
     nl @
     ''            valid_values = '' @ valid @ nl @
     ''            # Find values not in the acceptable set'' @ nl @
     ''            mask = ~df[\"'' @ primary @ ''\"].isin(valid_values)'' @ nl @
     ''            failed_records = df[mask].index.tolist()'' @ nl @
     nl @
     ''            return {'' @ nl @
     ''                \"passed\": len(failed_records) == 0,'' @ nl @
     ''                \"failed_records\": failed_records[:100]  # Limit to first 100 for readability'' @ nl @
     ''            }'' @ nl @
     ''        }'' @ nl @
     ''    })'' @ nl"

definition not_null_check_text :: "string \<Rightarrow> string \<Rightarrow> string \<Rightarrow> string \<Rightarrow> string" where
  "not_null_check_text rid desc sev primary =
     nl @
     ''    # Rule '' @ rid @ '': '' @ desc @ nl @
     ''    validation_rules.append({'' @ nl @
     ''        \"rule_id\": \"'' @ rid @ ''\",'' @ nl @
     ''        \"description\": \"'' @ desc @ ''\",'' @ nl @
     ''        \"severity\": \"'' @ sev @ ''\",'' @ nl @
     ''        \"validation_function\": lambda df: {'' @ nl @
     ''            if \"'' @ primary @ ''\" not in df.columns:'' @ nl @
     ''                return {\"passed\": False, \"error_message\": \"Column '' @ primary @ '' not found in DataFrame\"}'' @ nl @
     nl @
     ''            # Find null values'' @ nl @
     ''            mask = df[\"'' @ primary @ ''\"].isna()'' @ nl @
     ''            failed_records = df[mask].index.tolist()'' @ nl @
     nl @
     ''            return {'' @ nl @
     ''                \"passed\": len(failed_records) == 0,'' @ nl @
     ''                \"failed_records\": failed_records[:100]  # Limit to first 100 for readability'' @ nl @
     ''            }'' @ nl @
     ''        }'' @ nl @
     ''    })'' @ nl"

definition cross_field_check_text :: "string \<Rightarrow> string \<Rightarrow> string \<Rightarrow> string \<Rightarrow> string \<Rightarrow> string" where
  "cross_field_check_text rid desc sev primary secondary =
     nl @
     ''    # Rule '' @ rid @ '': '' @ desc @ nl @
     ''    validation_rules.append({'' @ nl @
     ''        \"rule_id\": \"'' @ rid @ ''\",'' @ nl @
     ''        \"description\": \"'' @ desc @ ''\",'' @ nl @
     ''        \"severity\": \"'' @ sev @ ''\",'' @ nl @
     ''        \"validation_function\": lambda df: {'' @ nl @
     ''            if \"'' @ primary @ ''\" not in df.columns or \"'' @ secondary @ ''\" not in df.columns:'' @ nl @
     ''                missing_cols = [col for col in [\"'' @ primary @ ''\", \"'' @ secondary @ ''\"] if col not in df.columns]'' @ nl @
     ''                return {\"passed\": False, \"error_message\": f\"Columns {missing_cols} not found in DataFrame\"}'' @ nl @
     nl @
     ''            # Find records where the cross-field validation fails'' @ nl @
     ''            # This is a simplified check - customize based on the specific logic'' @ nl @
     ''            mask = df[\"'' @ primary @ ''\"] != df[\"'' @ secondary @ ''\"]'' @ nl @
     ''            failed_records = df[mask].index.tolist()'' @ nl @
     nl @
     ''            return {'' @ nl @
     ''                \"passed\": len(failed_records) == 0,'' @ nl @
     ''                \"failed_records\": failed_records[:100]  # Limit to first 100 for readability'' @ nl @
     ''            }'' @ nl @
     ''        }'' @ nl @
     ''    })'' @ nl"

definition pandas_code_template :: string where
  "pandas_code_template =
     nl @
     ''import pandas as pd'' @ nl @
     ''import numpy as np'' @ nl @
     ''import json'' @ nl @
     ''from datetime import datetime'' @ nl @
     nl @
     ''def validate_data(df):'' @ nl @
     ''    \"\"\"'' @ nl @
     ''    Validate the input DataFrame against the defined rules.'' @ nl @
     nl @
     ''    Args:'' @ nl @
     ''        df (pandas.DataFrame): The data to validate'' @ nl @
     nl @
     ''    Returns:'' @ nl @
     ''        dict: Validation results with details on passed/failed rules'' @ nl @
     ''    \"\"\"'' @ nl @
     ''    results = {'' @ nl @
     ''        \"summary\": {'' @ nl @
     ''            \"total_rules\": 0,'' @ nl @
     ''            \"passed_rules\": 0,'' @ nl @
     ''            \"failed_rules\": 0,'' @ nl @
     ''            \"validation_timestamp\": datetime.now().isoformat()'' @ nl @
     ''        },'' @ nl @
     ''        \"rule_results\": {}'' @ nl @
     ''    }'' @ nl @
     nl @
     ''    # Make a copy to avoid modifying the original DataFrame'' @ nl @
     ''    data = df.copy()'' @ nl @
     nl @
     ''    # Define validation rules'' @ nl @
     ''    validation_rules = []'' @ nl @
     nl @
     ''    {rules_definition}'' @ nl @
     nl @
     ''    # Execute validation rules'' @ nl @
     ''    for rule in validation_rules:'' @ nl @
     ''        rule_id = rule[\"rule_id\"]'' @ nl @
     ''        results[\"summary\"][\"total_rules\"] += 1'' @ nl @
     nl @
     ''        try:'' @ nl @
     ''            # Apply the rule's validation function'' @ nl @
     ''            rule_result = rule[\"validation_function\"](data)'' @ nl @
     nl @
     ''            # Store the result'' @ nl @
     ''            results[\"rule_results\"][rule_id] = {'' @ nl @
     ''                \"passed\": rule_result[\"passed\"],'' @ nl @
     ''                \"description\": rule[\"description\"],'' @ nl @
     ''                \"severity\": rule[\"severity\"]'' @ nl @
     ''            }'' @ nl @
     nl @
     ''            # Add details if the rule failed'' @ nl @
     ''            if not rule_result[\"passed\"]:'' @ nl @
     ''                results[\"summary\"][\"failed_rules\"] += 1'' @ nl @
     ''                results[\"rule_results\"][rule_id][\"failed_records\"] = rule_result.get(\"failed_records\", [])'' @ nl @
     ''                results[\"rule_results\"][rule_id][\"error_message\"] = rule_result.get(\"error_message\", \"\")'' @ nl @
     ''            else:'' @ nl @
     ''                results[\"summary\"][\"passed_rules\"] += 1'' @ nl @
     nl @
     ''        except Exception as e:'' @ nl @
     ''            # Handle exceptions during rule execution'' @ nl @
     ''            results[\"summary\"][\"failed_rules\"] += 1'' @ nl @
     ''            results[\"rule_results\"][rule_id] = {'' @ nl @
     ''                \"passed\": False,'' @ nl @
     ''                \"description\": rule[\"description\"],'' @ nl @
     ''                \"severity\": rule[\"severity\"],'' @ nl @
     ''                \"error_message\": f\"Error executing rule: {str(e)}\"'' @ nl @
     ''            }'' @ nl @
     nl @
     ''    return results'' @ nl @
     nl @
     ''if __name__ == \"__main__\":'' @ nl @
     ''    # Example usage'' @ nl @
     ''    # df = pd.read_csv(\"your_data.csv\")'' @ nl @
     ''    # validation_results = validate_data(df)'' @ nl @
     ''    # print(json.dumps(validation_results, indent=2))'' @ nl @
     ''    pass'' @ nl"

text \<open>
  One turn of the loop over \<open>rule_templates\<close> (lines 118 to 247): \<open>Inl\<close> is an exception
  leaving \<open>generate_pandas_validation\<close>, \<open>Inr None\<close> a turn that appends nothing (the
  \<^verbatim>\<open>continue\<close> on empty \<open>elements\<close>, and a type that no branch of the
  \<^verbatim>\<open>if\<close>/\<^verbatim>\<open>elif\<close> chain takes), \<open>Inr (Some text)\<close> the text appended to \<open>rules_code\<close>.
\<close>

definition compile_rule :: "rule_template \<Rightarrow> exn + string option" where
  "compile_rule t =
     (case tpl_rule_id t of
        None \<Rightarrow> Inl (KeyError ''rule_id'')
      | Some rid \<Rightarrow>
         (let rule_type = get_default (tpl_type t) [];
              elements = get_default (tpl_elements t) [];
              logic = get_default (tpl_logic t) [];
              desc = get_default (tpl_description t) [];
              sev = get_default (tpl_severity t) ''warning''
          in if elements = [] then Inr None
             else
               (let primary_element = hd elements in
                if rule_type = ''range_check'' then
                  (case lower_bound_of logic of
                     Inl e \<Rightarrow> Inl e
                   | Inr lower_bound \<Rightarrow>
                      (case upper_bound_of logic of
                         Inl e \<Rightarrow> Inl e
                       | Inr upper_bound \<Rightarrow>
                          Inr (Some (range_check_text rid desc sev primary_element
                                       lower_bound upper_bound))))
                else if rule_type = ''categorical_check'' then
                  (case valid_values_of logic of
                     Inl e \<Rightarrow> Inl e
                   | Inr valid_values \<Rightarrow>
                      Inr (Some (categorical_check_text rid desc sev primary_element valid_values)))
                else if rule_type = ''not_null_check'' then
                  Inr (Some (not_null_check_text rid desc sev primary_element))
                else if rule_type = ''cross_field_check'' \<and> length elements \<ge> 2 then
                  Inr (Some (cross_field_check_text rid desc sev primary_element (elements ! 1)))
                else Inr None)))"

text \<open>The loop: \<open>rules_code\<close> when it ends, or the first exception.\<close>

fun rules_code :: "rule_template list \<Rightarrow> exn + string list" where
  "rules_code [] = Inr []"
| "rules_code (t # ts) =
     (case compile_rule t of
        Inl e \<Rightarrow> Inl e
      | Inr r \<Rightarrow>
         (case rules_code ts of
            Inl e \<Rightarrow> Inl e
          | Inr rs \<Rightarrow> Inr ((case r of None \<Rightarrow> [] | Some x \<Rightarrow> [x]) @ rs)))"

text \<open>The templates for which a turn of the loop appends a text: \<open>elements\<close> is not empty
  and the type is one with a branch, a cross-field rule having two elements.\<close>

definition compiles :: "rule_template \<Rightarrow> bool" where
  "compiles t =
     (let rule_type = get_default (tpl_type t) []; elements = get_default (tpl_elements t) []
      in elements \<noteq> [] \<and>
         (rule_type = ''range_check'' \<or> rule_type = ''categorical_check'' \<or>
          rule_type = ''not_null_check'' \<or>
          (rule_type = ''cross_field_check'' \<and> 2 \<le> length elements)))"


section \<open>Line 250: the script is assembled with str.format\<close>

text \<open>
  \<^verbatim>\<open>template.format(**kwargs)\<close> with keyword arguments that are strings. Literal text is
  copied, \<^verbatim>\<open>{{\<close> and \<^verbatim>\<open>}}\<close> stand for one brace, and a single \<^verbatim>\<open>{\<close> opens a replacement field.
  Python reads the field name up to \<^verbatim>\<open>}\<close>, \<^verbatim>\<open>:\<close> or \<^verbatim>\<open>!\<close> (text in square brackets is skipped,
  a \<^verbatim>\<open>{\<close> is an error); after \<^verbatim>\<open>:\<close> or \<^verbatim>\<open>!\<close> the field runs to the matching \<^verbatim>\<open>}\<close>, nested
  braces counted. Then the argument named by the field name up to its first \<^verbatim>\<open>.\<close> or \<^verbatim>\<open>[\<close>
  is looked up: KeyError when no keyword argument has the name, IndexError for an empty
  or numeric name (there are no positional arguments).
\<close>

definition arg_name :: "string \<Rightarrow> string" where
  "arg_name field_name = takeWhile (\<lambda>c. c \<noteq> CHR ''.'' \<and> c \<noteq> CHR ''['') field_name"

definition is_digit :: "char \<Rightarrow> bool" where
  "is_digit c = (let n = (of_char c :: nat) in 48 \<le> n \<and> n \<le> 57)"

text \<open>
  What a replacement field gives. A field that is the bare name of a keyword argument is
  replaced by the argument. A field that reads an attribute or an item of a keyword
  argument, converts it or formats it with a specification is no part of
  \<open>pandas_code_template\<close> with its one keyword argument; the model marks it with a
  ValueError of its own.
\<close>

definition lookup_field :: "(string \<times> string) list \<Rightarrow> string \<Rightarrow> bool \<Rightarrow> exn + string" where
  "lookup_field kwargs field_name spec =
     (if list_all is_digit (arg_name field_name) then Inl IndexError
      else
        (case map_of kwargs (arg_name field_name) of
           None \<Rightarrow> Inl (KeyError (arg_name field_name))
         | Some v \<Rightarrow>
            if spec \<or> arg_name field_name \<noteq> field_name
            then Inl (ValueError ''field outside the model'')
            else Inr v))"

text \<open>
  The scanner reads one character at a time. Its state: in literal text; after a single
  \<^verbatim>\<open>{\<close>; after a single \<^verbatim>\<open>}\<close>; in a field name (inside square brackets or not, with the name
  read so far, reversed); in a conversion or format specification (with the depth of
  nested braces and the field name).
\<close>

datatype scan = Literal | Opened | Closed | Name bool string | Spec nat string

definition name_char :: "bool \<Rightarrow> string \<Rightarrow> char \<Rightarrow> exn + scan + string" where
  "name_char in_brackets acc c =
     (if in_brackets then Inr (Inl (Name (c \<noteq> CHR '']'') (c # acc)))
      else if c = CHR ''{'' then Inl (ValueError ''unexpected '{' in field name'')
      else if c = CHR ''['' then Inr (Inl (Name True (c # acc)))
      else if c = CHR ''}'' then Inr (Inr (rev acc))
      else if c = CHR '':'' \<or> c = CHR ''!'' then Inr (Inl (Spec 0 (rev acc)))
      else Inr (Inl (Name False (c # acc))))"

fun py_format_from :: "(string \<times> string) list \<Rightarrow> scan \<Rightarrow> string \<Rightarrow> string \<Rightarrow> exn + string" where
  "py_format_from kwargs st acc [] =
     (case st of
        Literal \<Rightarrow> Inr (rev acc)
      | Opened \<Rightarrow> Inl (ValueError ''Single '{' encountered in format string'')
      | Closed \<Rightarrow> Inl (ValueError ''Single '}' encountered in format string'')
      | Name b n \<Rightarrow> Inl (ValueError ''expected '}' before end of string'')
      | Spec d n \<Rightarrow> Inl (ValueError ''expected '}' before end of string''))"
| "py_format_from kwargs st acc (c # cs) =
     (case st of
        Literal \<Rightarrow>
          if c = CHR ''{'' then py_format_from kwargs Opened acc cs
          else if c = CHR ''}'' then py_format_from kwargs Closed acc cs
          else py_format_from kwargs Literal (c # acc) cs
      | Opened \<Rightarrow>
          if c = CHR ''{'' then py_format_from kwargs Literal (c # acc) cs
          else
            (case name_char False [] c of
               Inl e \<Rightarrow> Inl e
             | Inr (Inl st') \<Rightarrow> py_format_from kwargs st' acc cs
             | Inr (Inr field_name) \<Rightarrow>
                (case lookup_field kwargs field_name False of
                   Inl e \<Rightarrow> Inl e
                 | Inr v \<Rightarrow> py_format_from kwargs Literal (rev v @ acc) cs))
      | Closed \<Rightarrow>
          if c = CHR ''}'' then py_format_from kwargs Literal (c # acc) cs
          else Inl (ValueError ''Single '}' encountered in format string'')
      | Name b n \<Rightarrow>
          (case name_char b n c of
             Inl e \<Rightarrow> Inl e
           | Inr (Inl st') \<Rightarrow> py_format_from kwargs st' acc cs
           | Inr (Inr field_name) \<Rightarrow>
              (case lookup_field kwargs field_name False of
                 Inl e \<Rightarrow> Inl e
               | Inr v \<Rightarrow> py_format_from kwargs Literal (rev v @ acc) cs))
      | Spec d field_name \<Rightarrow>
          if c = CHR ''{'' then py_format_from kwargs (Spec (Suc d) field_name) acc cs
          else if c = CHR ''}'' then
            (case d of
               0 \<Rightarrow>
                 (case lookup_field kwargs field_name True of
                    Inl e \<Rightarrow> Inl e
                  | Inr v \<Rightarrow> py_format_from kwargs Literal (rev v @ acc) cs)
             | Suc d' \<Rightarrow> py_format_from kwargs (Spec d' field_name) acc cs)
          else py_format_from kwargs (Spec d field_name) acc cs)"

definition py_format :: "string \<Rightarrow> (string \<times> string) list \<Rightarrow> exn + string" where
  "py_format template kwargs = py_format_from kwargs Literal [] template"

text \<open>\<^verbatim>\<open>"\n".join(rules_code)\<close>.\<close>

fun join_lines :: "string list \<Rightarrow> string" where
  "join_lines [] = []"
| "join_lines [x] = x"
| "join_lines (x # y # xs) = x @ nl @ join_lines (y # xs)"

text \<open>\<open>generate_pandas_validation\<close>: the loop, then line 250.\<close>

definition generate_pandas_validation :: "rule_template list \<Rightarrow> exn + string" where
  "generate_pandas_validation rule_templates =
     (case rules_code rule_templates of
        Inl e \<Rightarrow> Inl e
      | Inr texts \<Rightarrow>
          py_format pandas_code_template [(''rules_definition'', join_lines texts)])"

section \<open>The validation executor\<close>

text \<open>
  \<open>validate_data\<close> as the text of \<open>pandas_code_template\<close> spells it (lines 53 to 105), over
  the list \<open>validation_rules\<close> the rule statements would build: each rule is a dictionary
  with \<^verbatim>\<open>rule_id\<close>, \<^verbatim>\<open>description\<close>, \<^verbatim>\<open>severity\<close> and a \<^verbatim>\<open>validation_function\<close>. A validation
  function takes the data and returns a result dictionary (\<^verbatim>\<open>passed\<close>, and \<^verbatim>\<open>failed_records\<close>
  or \<^verbatim>\<open>error_message\<close> when the key is there) or raises; \<open>Inl msg\<close> is an exception \<open>e\<close>
  with \<^verbatim>\<open>str(e)\<close> equal to \<open>msg\<close>. The timestamp is \<^verbatim>\<open>datetime.now().isoformat()\<close>, read from the
  clock when the run starts: the clock reading is the argument \<open>now\<close>. \<open>rule_results\<close> is a
  dictionary in insertion order.
\<close>

record rule_result =
  passed :: bool
  failed_records :: "int list option"
  error_message :: "string option"

record 'f rule =
  rule_id :: string
  rule_description :: string
  rule_severity :: string
  validation_function :: 'f

record summary_counts =
  total_rules :: nat
  passed_rules :: nat
  failed_rules :: nat
  validation_timestamp :: string

record rule_entry = rule_result +
  description :: string
  severity :: string

record results =
  summary :: summary_counts
  rule_results :: "(string \<times> rule_entry) list"

text \<open>One turn of the loop over \<open>validation_rules\<close>, with its \<^verbatim>\<open>try\<close>/\<^verbatim>\<open>except\<close>.\<close>

definition run_rule :: "'d \<Rightarrow> ('d \<Rightarrow> string + rule_result) rule \<Rightarrow> results \<Rightarrow> results" where
  "run_rule data rule res =
     (let s = (summary res)\<lparr>total_rules := total_rules (summary res) + 1\<rparr>
      in case validation_function rule data of
           Inr rule_result \<Rightarrow>
             (if \<not> passed rule_result then
                \<lparr>summary = s\<lparr>failed_rules := failed_rules s + 1\<rparr>,
                 rule_results = AList.update (rule_id rule)
                   \<lparr>passed = passed rule_result,
                    failed_records = Some (get_default (failed_records rule_result) []),
                    error_message = Some (get_default (error_message rule_result) []),
                    description = rule_description rule, severity = rule_severity rule\<rparr>
                   (rule_results res)\<rparr>
              else
                \<lparr>summary = s\<lparr>passed_rules := passed_rules s + 1\<rparr>,
                 rule_results = AList.update (rule_id rule)
                   \<lparr>passed = passed rule_result, failed_records = None, error_message = None,
                    description = rule_description rule, severity = rule_severity rule\<rparr>
                   (rule_results res)\<rparr>)
         | Inl msg \<Rightarrow>
             \<lparr>summary = s\<lparr>failed_rules := failed_rules s + 1\<rparr>,
              rule_results = AList.update (rule_id rule)
                \<lparr>passed = False, failed_records = None,
                 error_message = Some (''Error executing rule: '' @ msg),
                 description = rule_description rule, severity = rule_severity rule\<rparr>
                (rule_results res)\<rparr>)"

fun run_rules :: "'d \<Rightarrow> ('d \<Rightarrow> string + rule_result) rule list \<Rightarrow> results \<Rightarrow> results" where
  "run_rules data [] res = res"
| "run_rules data (rule # rules) res = run_rules data rules (run_rule data rule res)"

definition validate_data :: "string \<Rightarrow> ('d \<Rightarrow> string + rule_result) rule list \<Rightarrow> 'd \<Rightarrow> results" where
  "validate_data now validation_rules df =
     run_rules df validation_rules
       \<lparr>summary = \<lparr>total_rules = 0, passed_rules = 0, failed_rules = 0, validation_timestamp = now\<rparr>,
        rule_results = []\<rparr>"

text \<open>How a rule ends on the data: it raises, or returns with \<^verbatim>\<open>passed\<close> false, or returns
  with \<^verbatim>\<open>passed\<close> true.\<close>

definition rule_raises :: "'d \<Rightarrow> ('d \<Rightarrow> string + rule_result) rule \<Rightarrow> bool" where
  "rule_raises data rule =
     (case validation_function rule data of Inl msg \<Rightarrow> True | Inr r \<Rightarrow> False)"

definition rule_fails :: "'d \<Rightarrow> ('d \<Rightarrow> string + rule_result) rule \<Rightarrow> bool" where
  "rule_fails data rule =
     (case validation_function rule data of Inl msg \<Rightarrow> False | Inr r \<Rightarrow> \<not> passed r)"

definition rule_passes :: "'d \<Rightarrow> ('d \<Rightarrow> string + rule_result) rule \<Rightarrow> bool" where
  "rule_passes data rule =
     (case validation_function rule data of Inl msg \<Rightarrow> False | Inr r \<Rightarrow> passed r)"

section \<open>The remediation synthesizer\<close>

text \<open>
  \<^verbatim>\<open>fixer/recommender.py\<close>. A DataFrame has its row labels (\<^verbatim>\<open>df.index\<close>) and its named columns,
  each as long as the index; the functions below move cells and never look into them, so
  the type of a cell is a parameter. A remediation plan is the dictionary \<^verbatim>\<open>json.loads\<close>
  returns, with keys added: JSON values, and dictionaries in insertion order.
\<close>

record 'c dataframe =
  index :: "int list"
  columns :: "(string \<times> 'c list) list"

type_synonym 'c row = "(string \<times> 'c) list"

datatype jval = JNull | JBool bool | JNum int | JStr string | JArr "jval list"
  | JObj "(string \<times> jval) list"


type_synonym plan = "(string \<times> jval) list"

text \<open>
  The text-generation service is called with a prompt. A prompt is determined by the
  values formatted into it, so the service is a function of those values: the rule id,
  the rule's template, the sample rows and the rule's result for a plan request, and
  the plan's \<^verbatim>\<open>automation_code\<close> for a code request. \<^verbatim>\<open>json.loads\<close> and \<^verbatim>\<open>exec\<close> belong to the
  interpreter and are parameters as well. Each may raise: \<open>Inl msg\<close> is an exception \<open>e\<close>
  with \<^verbatim>\<open>str(e)\<close> equal to \<open>msg\<close>.

  The executor hands the synthesized function an object, which the function may change in
  place. Objects live in a heap (a list of objects, an address is a position); running
  code takes a heap and returns the heap it leaves, with an exception or a value. A
  callable gets the address of its argument and returns the address of its result.
\<close>

datatype 'c prompt =
  PlanPrompt string rule_template "'c row list" rule_entry
| CodePrompt jval

type_synonym 'o callable = "nat \<Rightarrow> 'o list \<Rightarrow> 'o list \<times> (string + nat)"

record ('c, 'o) services =
  llm :: "'c prompt \<Rightarrow> string + string"
  json_loads :: "string \<Rightarrow> string + jval"
  exec_code :: "string \<Rightarrow> 'o list \<Rightarrow> 'o list \<times> (string + 'o callable option)"


















section \<open>The remediation executor\<close>





text \<open>
  What code that was handed one object can reach: it may allocate, and change the object
  at the address it was given; every other object keeps its value. A callable returns
  its argument or an object it allocated.
\<close>

definition frame :: "nat option \<Rightarrow> 'o list \<Rightarrow> 'o list \<Rightarrow> bool" where
  "frame arg h h' =
     (length h \<le> length h' \<and> (\<forall>q < length h. Some q \<noteq> arg \<longrightarrow> h' ! q = h ! q))"

definition confined_callable :: "'o callable \<Rightarrow> bool" where
  "confined_callable f =
     (\<forall>p h. p < length h \<longrightarrow>
        (case f p h of
           (h', r) \<Rightarrow> frame (Some p) h h' \<and>
             (case r of Inl e \<Rightarrow> True | Inr q \<Rightarrow> q = p \<or> (length h \<le> q \<and> q < length h'))))"

definition confined :: "('c, 'o) services \<Rightarrow> bool" where
  "confined sv =
     (\<forall>code h.
        (case exec_code sv code h of
           (h', r) \<Rightarrow> frame None h h' \<and>
             (case r of Inr (Some f) \<Rightarrow> confined_callable f | _ \<Rightarrow> True)))"


section \<open>Example inputs\<close>

definition range_template :: rule_template where
  "range_template =
     \<lparr>tpl_rule_id = Some ''R1'', tpl_type = Some ''range_check'', tpl_elements = Some [''x''],
      tpl_logic = Some ''x >= 10 AND x <= 20'', tpl_description = Some ''x in range'',
      tpl_severity = Some ''high''\<rparr>"

definition categorical_template :: rule_template where
  "categorical_template =
     \<lparr>tpl_rule_id = Some ''R2'', tpl_type = Some ''categorical_check'', tpl_elements = Some [''s''],
      tpl_logic = Some ''s IN [\"A\", \"B\"]'', tpl_description = Some ''s is A or B'',
      tpl_severity = Some ''high''\<rparr>"

definition no_elements_template :: rule_template where
  "no_elements_template =
     \<lparr>tpl_rule_id = Some ''R3'', tpl_type = Some ''range_check'', tpl_elements = Some [],
      tpl_logic = Some ''x >= 10 AND x <= 20'', tpl_description = Some ''no elements'',
      tpl_severity = Some ''high''\<rparr>"

definition no_rule_id_template :: rule_template where
  "no_rule_id_template =
     \<lparr>tpl_rule_id = None, tpl_type = Some ''range_check'', tpl_elements = Some [''x''],
      tpl_logic = Some ''x >= 10 AND x <= 20'', tpl_description = Some ''no id'',
      tpl_severity = Some ''high''\<rparr>"

definition unparsed_template :: rule_template where
  "unparsed_template =
     \<lparr>tpl_rule_id = Some ''R4'', tpl_type = Some ''categorical_check'', tpl_elements = Some [''s''],
      tpl_logic = Some ''s is A or B'', tpl_description = Some ''s is A or B'',
      tpl_severity = Some ''high''\<rparr>"




definition missing_column_rule :: "(int option dataframe \<Rightarrow> string + rule_result) rule" where
  "missing_column_rule =
     \<lparr>rule_id = ''R5'', rule_description = ''y in range'', rule_severity = ''low'',
      validation_function =
        (\<lambda>df. Inr \<lparr>passed = False, failed_records = None,
                    error_message = Some ''Column y not found in DataFrame''\<rparr>)\<rparr>"


text \<open>Stand-ins for the services: a synthesized function that empties the DataFrame it
  is given, in place, and a service with fixed responses.\<close>

definition clear_rows :: "'c dataframe callable" where
  "clear_rows p h =
     (h[p := \<lparr>index = [], columns = map (\<lambda>(c, col). (c, [])) (columns (h ! p))\<rparr>], Inr p)"

definition canned :: "('c, 'c dataframe) services" where
  "canned =
     \<lparr>llm = (\<lambda>p. Inr ''{}''),
      json_loads = (\<lambda>s. if s = ''{}'' then Inr (JObj []) else Inl ''Expecting value''),
      exec_code = (\<lambda>code h. (h, Inr (Some clear_rows)))\<rparr>"

definition automated_plans :: "(string \<times> plan) list" where
  "automated_plans = [(''R1'', [(''explanation'', JStr ''out of range''), (''can_automate'', JBool True)])]"

definition manual_plans :: "(string \<times> plan) list" where
  "manual_plans = [(''R1'', [(''can_automate'', JBool False)]), (''R2'', [])]"

definition failed_entry :: rule_entry where
  "failed_entry =
     \<lparr>passed = False, failed_records = Some [0, 2, 3], error_message = Some [],
      description = ''x in range'', severity = ''high''\<rparr>"

definition not_provided_plan :: plan where
  "not_provided_plan =
     [(''explanation'', JStr ''Not provided''), (''remediation_steps'', JStr ''Not provided''),
      (''can_automate'', JStr ''Not provided''), (''auditor_explanation'', JStr ''Not provided''),
      (''rule_id'', JStr ''R1''), (''rule_type'', JStr ''range_check''), (''severity'', JStr ''high'')]"

section \<open>The loop of the compiler raises only on a missing rule id\<close>

lemma py_split_from_nonempty: "py_split_from sep acc s \<noteq> []"
  by (induction sep acc s rule: py_split_from.induct) auto

lemma py_split_from_two:
  "sep \<noteq> [] \<Longrightarrow> py_in sep s \<Longrightarrow> 2 \<le> length (py_split_from sep acc s)"
proof (induction s arbitrary: acc)
  case Nil
  then show ?case by simp
next
  case (Cons c cs)
  show ?case
  proof (cases "startswith (c # cs) sep")
    case True
    have "1 \<le> length (py_split_from sep [] (drop (length sep) (c # cs)))"
      using py_split_from_nonempty [of sep "[]" "drop (length sep) (c # cs)"]
      by (cases "py_split_from sep [] (drop (length sep) (c # cs))") auto
    with True Cons.prems show ?thesis by simp
  next
    case False
    with Cons.prems have "py_in sep cs" by simp
    with Cons.IH Cons.prems have "2 \<le> length (py_split_from sep (c # acc) cs)" by blast
    with False show ?thesis by simp
  qed
qed

lemma item_split_1:
  "sep \<noteq> [] \<Longrightarrow> py_in sep s \<Longrightarrow> \<exists>a. item (py_split sep s) 1 = Inr a"
  using py_split_from_two [of sep s "[]"] by (simp add: item_def py_split_def)

lemma item_split_0: "\<exists>a. item (py_split sep s) 0 = Inr a"
  using py_split_from_nonempty [of sep "[]" s] by (simp add: item_def py_split_def)

lemma lower_bound_total: "\<exists>b. lower_bound_of logic = Inr b"
proof (cases "py_in ''>='' logic")
  case True
  then obtain a where a: "item (py_split ''>='' logic) 1 = Inr a"
    using item_split_1 [of "''>=''" logic] by auto
  obtain b where b: "item (py_split ''AND'' a) 0 = Inr b"
    using item_split_0 [of "''AND''" a] by auto
  show ?thesis using True a b by (simp add: lower_bound_of_def)
next
  case False
  then show ?thesis by (simp add: lower_bound_of_def)
qed

lemma upper_bound_total: "\<exists>b. upper_bound_of logic = Inr b"
proof (cases "py_in ''<='' logic")
  case True
  then obtain a where a: "item (py_split ''<='' logic) 1 = Inr a"
    using item_split_1 [of "''<=''" logic] by auto
  show ?thesis using True a by (simp add: upper_bound_of_def)
next
  case False
  then show ?thesis by (simp add: upper_bound_of_def)
qed

lemma valid_values_total: "\<exists>b. valid_values_of logic = Inr b"
proof (cases "py_in ''IN'' logic")
  case True
  then obtain a where a: "item (py_split ''IN'' logic) 1 = Inr a"
    using item_split_1 [of "''IN''" logic] by auto
  show ?thesis using True a by (simp add: valid_values_of_def)
next
  case False
  then show ?thesis by (simp add: valid_values_of_def)
qed

lemma compile_rule_no_id: "tpl_rule_id t = None \<Longrightarrow> compile_rule t = Inl (KeyError ''rule_id'')"
  by (simp add: compile_rule_def)

lemma compile_rule_skips:
  "tpl_rule_id t = Some rid \<Longrightarrow> \<not> compiles t \<Longrightarrow> compile_rule t = Inr None"
  by (auto simp add: compile_rule_def compiles_def Let_def)

lemma compile_rule_returns:
  assumes "tpl_rule_id t = Some rid"
  shows "\<exists>r. compile_rule t = Inr r"
proof -
  obtain lb where lb: "lower_bound_of (get_default (tpl_logic t) []) = Inr lb"
    using lower_bound_total by blast
  obtain ub where ub: "upper_bound_of (get_default (tpl_logic t) []) = Inr ub"
    using upper_bound_total by blast
  obtain vs where vs: "valid_values_of (get_default (tpl_logic t) []) = Inr vs"
    using valid_values_total by blast
  show ?thesis
    using assms lb ub vs by (simp add: compile_rule_def Let_def)
qed

lemma compile_rule_raises:
  "(compile_rule t = Inl e) = (e = KeyError ''rule_id'' \<and> tpl_rule_id t = None)"
proof (cases "tpl_rule_id t")
  case None
  then show ?thesis by (auto simp add: compile_rule_no_id)
next
  case (Some rid)
  then obtain r where "compile_rule t = Inr r" using compile_rule_returns by blast
  with Some show ?thesis by simp
qed

lemma rules_code_raises:
  "(rules_code ts = Inl e) = (e = KeyError ''rule_id'' \<and> (\<exists>t\<in>set ts. tpl_rule_id t = None))"
proof (induction ts)
  case Nil
  then show ?case by simp
next
  case (Cons t ts)
  show ?case
  proof (cases "compile_rule t")
    case (Inl e')
    then have "e' = KeyError ''rule_id''" "tpl_rule_id t = None"
      using compile_rule_raises [of t e'] by auto
    with Inl show ?thesis by auto
  next
    case (Inr r)
    then have "tpl_rule_id t \<noteq> None"
      using compile_rule_no_id [of t] by auto
    with Inr Cons.IH show ?thesis by (auto split: sum.splits)
  qed
qed

lemma rules_code_append:
  "rules_code (ts @ us) =
     (case rules_code ts of
        Inl e \<Rightarrow> Inl e
      | Inr a \<Rightarrow> (case rules_code us of Inl e \<Rightarrow> Inl e | Inr b \<Rightarrow> Inr (a @ b)))"
  by (induction ts) (auto split: sum.splits)

lemma rules_code_skip:
  "compile_rule t = Inr None \<Longrightarrow> rules_code (ts @ t # us) = rules_code (ts @ us)"
  by (simp add: rules_code_append split: sum.splits)

section \<open>Line 250 raises for every argument\<close>

lemma literal_skip:
  "CHR ''{'' \<notin> set p \<Longrightarrow> CHR ''}'' \<notin> set p \<Longrightarrow>
   py_format_from kw Literal acc (p @ s) = py_format_from kw Literal (rev p @ acc) s"
  by (induction p arbitrary: acc) auto

lemma name_skip:
  "\<forall>c \<in> set n. c \<noteq> CHR ''{'' \<and> c \<noteq> CHR ''['' \<and> c \<noteq> CHR ''}'' \<and> c \<noteq> CHR '':'' \<and> c \<noteq> CHR ''!'' \<Longrightarrow>
   py_format_from kw (Name False a) acc (n @ s) = py_format_from kw (Name False (rev n @ a)) acc s"
  by (induction n arbitrary: a) (auto simp add: name_char_def)

lemma open_newline:
  "py_format_from kw Literal acc (CHR ''{'' # (nl @ n) @ s) =
   py_format_from kw (Name False nl) acc (n @ s)"
  by (simp add: nl_def name_char_def)

lemma colon_step:
  "py_format_from kw (Name False a) acc (CHR '':'' # s) = py_format_from kw (Spec 0 (rev a)) acc s"
  by (simp add: name_char_def)

lemma summary_spec_scan:
  "py_format_from kw (Spec 0 f) acc
     (('' {'' @ nl @
       ''            \"total_rules\": 0,'' @ nl @
       ''            \"passed_rules\": 0,'' @ nl @
       ''            \"failed_rules\": 0,'' @ nl @
       ''            \"validation_timestamp\": datetime.now().isoformat()'' @ nl @
       ''        },'' @ nl @
       ''        \"rule_results\": {}'' @ nl @
       ''    '') @ CHR ''}'' # tail) =
   (case lookup_field kw f True of
      Inl e \<Rightarrow> Inl e
    | Inr v \<Rightarrow> py_format_from kw Literal (rev v @ acc) tail)"
  by (simp add: nl_def)

lemma template_raises:
  "py_format pandas_code_template [(''rules_definition'', v)] =
     Inl (KeyError (nl @ ''        \"summary\"''))"
proof -
  have split: "pandas_code_template =
     (nl @
       ''import pandas as pd'' @ nl @
       ''import numpy as np'' @ nl @
       ''import json'' @ nl @
       ''from datetime import datetime'' @ nl @
       nl @
       ''def validate_data(df):'' @ nl @
       ''    \"\"\"'' @ nl @
       ''    Validate the input DataFrame against the defined rules.'' @ nl @
       nl @
       ''    Args:'' @ nl @
       ''        df (pandas.DataFrame): The data to validate'' @ nl @
       nl @
       ''    Returns:'' @ nl @
       ''        dict: Validation results with details on passed/failed rules'' @ nl @
       ''    \"\"\"'' @ nl @
       ''    results = '') @
     CHR ''{'' # (nl @ ''        \"summary\"'') @
     CHR '':'' # ('' {'' @ nl @
       ''            \"total_rules\": 0,'' @ nl @
       ''            \"passed_rules\": 0,'' @ nl @
       ''            \"failed_rules\": 0,'' @ nl @
       ''            \"validation_timestamp\": datetime.now().isoformat()'' @ nl @
       ''        },'' @ nl @
       ''        \"rule_results\": {}'' @ nl @
       ''    '') @
     CHR ''}'' # (nl @
       nl @
       ''    # Make a copy to avoid modifying the original DataFrame'' @ nl @
       ''    data = df.copy()'' @ nl @
       nl @
       ''    # Define validation rules'' @ nl @
       ''    validation_rules = []'' @ nl @
       nl @
       ''    {rules_definition}'' @ nl @
       nl @
       ''    # Execute validation rules'' @ nl @
       ''    for rule in validation_rules:'' @ nl @
       ''        rule_id = rule[\"rule_id\"]'' @ nl @
       ''        results[\"summary\"][\"total_rules\"] += 1'' @ nl @
       nl @
       ''        try:'' @ nl @
       ''            # Apply the rule's validation function'' @ nl @
       ''            rule_result = rule[\"validation_function\"](data)'' @ nl @
       nl @
       ''            # Store the result'' @ nl @
       ''            results[\"rule_results\"][rule_id] = {'' @ nl @
       ''                \"passed\": rule_result[\"passed\"],'' @ nl @
       ''                \"description\": rule[\"description\"],'' @ nl @
       ''                \"severity\": rule[\"severity\"]'' @ nl @
       ''            }'' @ nl @
       nl @
       ''            # Add details if the rule failed'' @ nl @
       ''            if not rule_result[\"passed\"]:'' @ nl @
       ''                results[\"summary\"][\"failed_rules\"] += 1'' @ nl @
       ''                results[\"rule_results\"][rule_id][\"failed_records\"] = rule_result.get(\"failed_records\", [])'' @ nl @
       ''                results[\"rule_results\"][rule_id][\"error_message\"] = rule_result.get(\"error_message\", \"\")'' @ nl @
       ''            else:'' @ nl @
       ''                results[\"summary\"][\"passed_rules\"] += 1'' @ nl @
       nl @
       ''        except Exception as e:'' @ nl @
       ''            # Handle exceptions during rule execution'' @ nl @
       ''            results[\"summary\"][\"failed_rules\"] += 1'' @ nl @
       ''            results[\"rule_results\"][rule_id] = {'' @ nl @
       ''                \"passed\": False,'' @ nl @
       ''                \"description\": rule[\"description\"],'' @ nl @
       ''                \"severity\": rule[\"severity\"],'' @ nl @
       ''                \"error_message\": f\"Error executing rule: {str(e)}\"'' @ nl @
       ''            }'' @ nl @
       nl @
       ''    return results'' @ nl @
       nl @
       ''if __name__ == \"__main__\":'' @ nl @
       ''    # Example usage'' @ nl @
       ''    # df = pd.read_csv(\"your_data.csv\")'' @ nl @
       ''    # validation_results = validate_data(df)'' @ nl @
       ''    # print(json.dumps(validation_results, indent=2))'' @ nl @
       ''    pass'' @ nl)"
    (is "_ = ?pre @ CHR ''{'' # (nl @ ?name) @ CHR '':'' # ?spec @ CHR ''}'' # ?tail")
    by (simp add: pandas_code_template_def nl_def)
  let ?kw = "[(''rules_definition'', v)]"
  have pre: "CHR ''{'' \<notin> set ?pre" "CHR ''}'' \<notin> set ?pre"
    by (simp_all add: nl_def)
  have 1: "py_format_from ?kw Literal [] (?pre @ CHR ''{'' # (nl @ ?name) @ CHR '':'' # ?spec @ CHR ''}'' # ?tail) =
      py_format_from ?kw Literal (rev ?pre) (CHR ''{'' # (nl @ ?name) @ CHR '':'' # ?spec @ CHR ''}'' # ?tail)"
    using literal_skip [OF pre, of ?kw "[]"] by (simp only: append_Nil2)
  have 2: "py_format_from ?kw Literal (rev ?pre) (CHR ''{'' # (nl @ ?name) @ CHR '':'' # ?spec @ CHR ''}'' # ?tail) =
      py_format_from ?kw (Name False nl) (rev ?pre) (?name @ CHR '':'' # ?spec @ CHR ''}'' # ?tail)"
    by (rule open_newline)
  have 3: "py_format_from ?kw (Name False nl) (rev ?pre) (?name @ CHR '':'' # ?spec @ CHR ''}'' # ?tail) =
      py_format_from ?kw (Name False (rev ?name @ nl)) (rev ?pre) (CHR '':'' # ?spec @ CHR ''}'' # ?tail)"
    by (rule name_skip) simp
  have n: "rev (rev ?name @ nl) = nl @ ?name"
    by (simp add: nl_def)
  have 4: "py_format_from ?kw (Name False (rev ?name @ nl)) (rev ?pre) (CHR '':'' # ?spec @ CHR ''}'' # ?tail) =
      py_format_from ?kw (Spec 0 (nl @ ?name)) (rev ?pre) (?spec @ CHR ''}'' # ?tail)"
    unfolding colon_step n ..
  have 5: "py_format_from ?kw (Spec 0 (nl @ ?name)) (rev ?pre) (?spec @ CHR ''}'' # ?tail) =
      (case lookup_field ?kw (nl @ ?name) True of
         Inl e \<Rightarrow> Inl e
       | Inr v \<Rightarrow> py_format_from ?kw Literal (rev v @ rev ?pre) ?tail)"
    by (rule summary_spec_scan)
  have 6: "lookup_field ?kw (nl @ ?name) True = Inl (KeyError (nl @ ?name))"
    by (simp add: lookup_field_def arg_name_def is_digit_def nl_def)
  show ?thesis
    unfolding py_format_def split 1 2 3 4 5 6 by (simp only: sum.case)
qed

lemma generate_pandas_validation_raises:
  "generate_pandas_validation ts =
     Inl (if \<exists>t\<in>set ts. tpl_rule_id t = None then KeyError ''rule_id''
          else KeyError (nl @ ''        \"summary\"''))"
proof (cases "rules_code ts")
  case (Inl e)
  then have "e = KeyError ''rule_id''" "\<exists>t\<in>set ts. tpl_rule_id t = None"
    using rules_code_raises [of ts e] by auto
  with Inl show ?thesis by (simp add: generate_pandas_validation_def)
next
  case (Inr texts)
  have "\<not> (\<exists>t\<in>set ts. tpl_rule_id t = None)"
  proof
    assume "\<exists>t\<in>set ts. tpl_rule_id t = None"
    then have "rules_code ts = Inl (KeyError ''rule_id'')"
      using rules_code_raises [of ts "KeyError ''rule_id''"] by simp
    with Inr show False by simp
  qed
  with Inr show ?thesis by (simp add: generate_pandas_validation_def template_raises)
qed

section \<open>What the compiler does with the example rules\<close>

lemma compile_range_template:
  "compile_rule range_template =
     Inr (Some (range_check_text ''R1'' ''x in range'' ''high'' ''x'' ''10'' ''20''))"
  by (simp add: compile_rule_def range_template_def get_default_def lower_bound_of_def
      upper_bound_of_def py_split_def item_def py_strip_def is_space_def)

lemma compile_categorical_template:
  "compile_rule categorical_template =
     Inr (Some (categorical_check_text ''R2'' ''s is A or B'' ''high'' ''s'' ''[\"A\", \"B\"]''))"
  by (simp add: compile_rule_def categorical_template_def get_default_def valid_values_of_def
      py_split_def item_def py_strip_def is_space_def)

lemma compile_unparsed_template:
  "compile_rule unparsed_template =
     Inr (Some (categorical_check_text ''R4'' ''s is A or B'' ''high'' ''s'' ''[]''))"
  by (simp add: compile_rule_def unparsed_template_def get_default_def valid_values_of_def)

lemma compile_no_elements: "compile_rule no_elements_template = Inr None"
  by (simp add: compile_rule_def no_elements_template_def get_default_def)

lemma range_template_id: "tpl_rule_id range_template = Some ''R1''"
  by (simp add: range_template_def)

lemma categorical_template_id: "tpl_rule_id categorical_template = Some ''R2''"
  by (simp add: categorical_template_def)

lemma unparsed_template_id: "tpl_rule_id unparsed_template = Some ''R4''"
  by (simp add: unparsed_template_def)

lemma no_elements_template_id: "tpl_rule_id no_elements_template = Some ''R3''"
  by (simp add: no_elements_template_def)

text \<open>
  C2 (the code at the claim's input). For the range rule with bounds 10 and 20 the loop
  builds the text of the range frame, whose mask is the negation of ``at least 10 and at
  most 20''; line 250 then raises a KeyError, so \<open>generate_pandas_validation\<close> returns no
  script and no row is ever reported.
\<close>

theorem range_check_not_compiled:
  "rules_code [range_template] =
     Inr [range_check_text ''R1'' ''x in range'' ''high'' ''x'' ''10'' ''20''] \<and>
   py_in ''mask = ~((df[\"x\"] >= 10) & (df[\"x\"] <= 20))''
     (range_check_text ''R1'' ''x in range'' ''high'' ''x'' ''10'' ''20'') \<and>
   generate_pandas_validation [range_template] = Inl (KeyError (nl @ ''        \"summary\"''))"
proof (intro conjI)
  show "rules_code [range_template] =
     Inr [range_check_text ''R1'' ''x in range'' ''high'' ''x'' ''10'' ''20'']"
    by (simp add: compile_range_template)
  show "py_in ''mask = ~((df[\"x\"] >= 10) & (df[\"x\"] <= 20))''
     (range_check_text ''R1'' ''x in range'' ''high'' ''x'' ''10'' ''20'')"
    by (simp add: range_check_text_def nl_def)
  show "generate_pandas_validation [range_template] = Inl (KeyError (nl @ ''        \"summary\"''))"
    by (simp add: generate_pandas_validation_raises range_template_id)
qed

text \<open>
  C3 (the code at the claim's input). For the categorical rule with the list A, B the
  loop builds the text of the categorical frame, whose mask is the negation of
  \<^verbatim>\<open>isin\<close>; line 250 then raises a KeyError, so no script is returned and no row is ever
  reported.
\<close>

theorem categorical_check_not_compiled:
  "rules_code [categorical_template] =
     Inr [categorical_check_text ''R2'' ''s is A or B'' ''high'' ''s'' ''[\"A\", \"B\"]''] \<and>
   py_in ''mask = ~df[\"s\"].isin(valid_values)''
     (categorical_check_text ''R2'' ''s is A or B'' ''high'' ''s'' ''[\"A\", \"B\"]'') \<and>
   generate_pandas_validation [categorical_template] =
     Inl (KeyError (nl @ ''        \"summary\"''))"
proof (intro conjI)
  show "rules_code [categorical_template] =
     Inr [categorical_check_text ''R2'' ''s is A or B'' ''high'' ''s'' ''[\"A\", \"B\"]'']"
    by (simp add: compile_categorical_template)
  show "py_in ''mask = ~df[\"s\"].isin(valid_values)''
     (categorical_check_text ''R2'' ''s is A or B'' ''high'' ''s'' ''[\"A\", \"B\"]'')"
    by (simp add: categorical_check_text_def nl_def)
  show "generate_pandas_validation [categorical_template] =
     Inl (KeyError (nl @ ''        \"summary\"''))"
    by (simp add: generate_pandas_validation_raises categorical_template_id)
qed

text \<open>
  C6 (the code at the claim's input). For a categorical rule whose logic has no \<^verbatim>\<open>IN\<close> the
  loop builds the categorical frame with the list expression \<^verbatim>\<open>[]\<close>, the same frame as
  for a parsed list (nothing in it passes every row, and there is no error message);
  line 250 then raises a KeyError.
\<close>

theorem unparsed_categorical_not_compiled:
  "rules_code [unparsed_template] =
     Inr [categorical_check_text ''R4'' ''s is A or B'' ''high'' ''s'' ''[]''] \<and>
   py_in (''valid_values = []'' @ nl @ ''            # Find values not in the acceptable set'' @ nl @
          ''            mask = ~df[\"s\"].isin(valid_values)'')
     (categorical_check_text ''R4'' ''s is A or B'' ''high'' ''s'' ''[]'') \<and>
   generate_pandas_validation [unparsed_template] = Inl (KeyError (nl @ ''        \"summary\"''))"
proof (intro conjI)
  show "rules_code [unparsed_template] =
     Inr [categorical_check_text ''R4'' ''s is A or B'' ''high'' ''s'' ''[]'']"
    by (simp add: compile_unparsed_template)
  show "py_in (''valid_values = []'' @ nl @ ''            # Find values not in the acceptable set'' @ nl @
          ''            mask = ~df[\"s\"].isin(valid_values)'')
     (categorical_check_text ''R4'' ''s is A or B'' ''high'' ''s'' ''[]'')"
    by (simp add: categorical_check_text_def nl_def)
  show "generate_pandas_validation [unparsed_template] = Inl (KeyError (nl @ ''        \"summary\"''))"
    by (simp add: generate_pandas_validation_raises unparsed_template_id)
qed

text \<open>
  C5 (as amended). The loop of the compiler raises exactly when some template has no
  \<open>rule_id\<close>, wherever it stands in the list, and the exception is a KeyError. A template
  that has a \<open>rule_id\<close> and whose \<open>elements\<close> are missing or empty is passed over, wherever
  it stands: its turn raises nothing and appends nothing, and \<open>rules_code\<close> is what it is
  without the template.
\<close>

theorem malformed_template:
  "((rules_code ts = Inl e) = (e = KeyError ''rule_id'' \<and> (\<exists>t\<in>set ts. tpl_rule_id t = None))) \<and>
   (tpl_rule_id t \<noteq> None \<and> get_default (tpl_elements t) [] = [] \<longrightarrow>
      compile_rule t = Inr None \<and> rules_code (pre @ t # post) = rules_code (pre @ post))"
proof (intro conjI impI)
  show "(rules_code ts = Inl e) = (e = KeyError ''rule_id'' \<and> (\<exists>t\<in>set ts. tpl_rule_id t = None))"
    by (rule rules_code_raises)
next
  assume a: "tpl_rule_id t \<noteq> None \<and> get_default (tpl_elements t) [] = []"
  then obtain rid where rid: "tpl_rule_id t = Some rid" by auto
  from a have "\<not> compiles t" by (simp add: compiles_def Let_def)
  with rid show c: "compile_rule t = Inr None" by (rule compile_rule_skips)
  then show "rules_code (pre @ t # post) = rules_code (pre @ post)"
    by (rule rules_code_skip)
qed

theorem malformed_template_witness:
  "rules_code [range_template, no_rule_id_template] = Inl (KeyError ''rule_id'') \<and>
   tpl_rule_id no_rule_id_template = None \<and>
   tpl_rule_id no_elements_template \<noteq> None \<and>
   get_default (tpl_elements no_elements_template) [] = [] \<and>
   compile_rule no_elements_template = Inr None \<and>
   rules_code ([range_template] @ no_elements_template # [categorical_template]) =
     rules_code ([range_template] @ [categorical_template])"
proof -
  have a: "tpl_rule_id no_rule_id_template = None" by (simp add: no_rule_id_template_def)
  have b: "tpl_rule_id no_elements_template \<noteq> None \<and>
      get_default (tpl_elements no_elements_template) [] = []"
    by (simp add: no_elements_template_def get_default_def)
  have c: "\<exists>t\<in>set [range_template, no_rule_id_template]. tpl_rule_id t = None"
    using a by simp
  show ?thesis
    using malformed_template [of "[range_template, no_rule_id_template]" "KeyError ''rule_id''"
        no_elements_template "[range_template]" "[categorical_template]"] a b c
    by blast
qed

text \<open>The claim as stated fails: a template with empty \<open>elements\<close> raises nothing in its
  turn of the loop and leaves no trace, the rule after it is compiled as if it were
  alone, and the call ends as it does for an empty list of templates.\<close>

theorem empty_elements_skipped_counterexample:
  "tpl_elements no_elements_template = Some [] \<and>
   compile_rule no_elements_template = Inr None \<and>
   rules_code [no_elements_template, range_template] = rules_code [range_template] \<and>
   generate_pandas_validation [no_elements_template] = generate_pandas_validation []"
  by (simp add: compile_no_elements compile_range_template generate_pandas_validation_raises
      no_elements_template_id)
    (simp add: no_elements_template_def)

section \<open>The summary counts\<close>

lemma run_rule_counts:
  "total_rules (summary (run_rule d r res)) = total_rules (summary res) + 1 \<and>
   passed_rules (summary (run_rule d r res)) =
     passed_rules (summary res) + (if rule_passes d r then 1 else 0) \<and>
   failed_rules (summary (run_rule d r res)) =
     failed_rules (summary res) + (if rule_raises d r then 1 else 0)
       + (if rule_fails d r then 1 else 0)"
  by (cases "validation_function r d")
    (simp_all add: run_rule_def Let_def rule_passes_def rule_raises_def rule_fails_def)

lemma run_rules_counts:
  "total_rules (summary (run_rules d rs res)) = total_rules (summary res) + length rs \<and>
   passed_rules (summary (run_rules d rs res)) =
     passed_rules (summary res) + length (filter (rule_passes d) rs) \<and>
   failed_rules (summary (run_rules d rs res)) =
     failed_rules (summary res) + length (filter (rule_raises d) rs)
       + length (filter (rule_fails d) rs)"
proof (induction rs arbitrary: res)
  case Nil
  then show ?case by simp
next
  case (Cons r rs)
  show ?case
    using Cons.IH [of "run_rule d r res"] run_rule_counts [of d r res] by simp
qed

lemma outcome_partition:
  "length rs = length (filter (rule_passes d) rs) + length (filter (rule_raises d) rs)
     + length (filter (rule_fails d) rs)"
proof (induction rs)
  case Nil
  then show ?case by simp
next
  case (Cons r rs)
  then show ?case
    by (cases "validation_function r d")
      (simp_all add: rule_passes_def rule_raises_def rule_fails_def)
qed

text \<open>
  C1. After a run of \<open>validate_data\<close>, for any rules (their predicates may return a result
  or raise) and any dataset: \<open>total_rules\<close> is the number of rules, \<open>passed_rules\<close> the number
  of rules that returned with \<open>passed\<close> true, \<open>failed_rules\<close> the number of rules that raised
  plus the number that returned with \<open>passed\<close> false, and
  \<open>total_rules = passed_rules + failed_rules\<close>. A rule whose predicate raises is counted
  once, as failed.
\<close>

theorem summary_total:
  "total_rules (summary (validate_data now validation_rules df)) = length validation_rules \<and>
   passed_rules (summary (validate_data now validation_rules df)) =
     length (filter (rule_passes df) validation_rules) \<and>
   failed_rules (summary (validate_data now validation_rules df)) =
     length (filter (rule_raises df) validation_rules)
       + length (filter (rule_fails df) validation_rules) \<and>
   total_rules (summary (validate_data now validation_rules df)) =
     passed_rules (summary (validate_data now validation_rules df))
       + failed_rules (summary (validate_data now validation_rules df))"
  unfolding validate_data_def
  using run_rules_counts [of df validation_rules
      "\<lparr>summary = \<lparr>total_rules = 0, passed_rules = 0, failed_rules = 0, validation_timestamp = now\<rparr>,
        rule_results = []\<rparr>"]
    outcome_partition [of validation_rules df]
  by simp

section \<open>The keys of the rule results\<close>

























section \<open>Two runs differ in the timestamp only\<close>







end
